theory Spec2Isabelle
  imports Complex_Main "HOL-Library.Monad_Syntax"
begin

section \<open>JavaScript values\<close>

text \<open>
  A JavaScript string is a sequence of UTF-16 code units; the unit tokens compared by the
  comparison engine contain the Greek letter mu (U+03BC) and the micro sign (U+00B5), so a
  string is modelled as the list of its code units. \<open>js\<close> turns an ASCII literal into
  such a list.

  Numbers that the code computes with (scores, rates, delays, parsed amounts) are modelled
  as exact rationals: the rounding of IEEE doubles is not part of the model. Where the
  source can produce \<open>NaN\<close> the model says so with an explicit constructor.
\<close>

type_synonym jsstring = "nat list"

definition js :: "string \<Rightarrow> jsstring" where
  "js s = map of_char s"

text \<open>
  \<open>String.prototype.toLowerCase\<close> on a code unit. The ASCII capitals are mapped to their
  lower-case letters; the only two other code units whose lower case contains an ASCII
  letter (the Kelvin sign U+212A and the dotted capital I U+0130) are mapped as Unicode
  maps them. Every other code unit is left unchanged: capitals outside ASCII, which
  Unicode maps to other non-ASCII code units, are not modelled, and none of the markers,
  unit tokens and character classes that the code compares lower-cased text against
  contains such a character.
\<close>

definition lowerUnit :: "nat \<Rightarrow> jsstring" where
  "lowerUnit c =
     (if 65 \<le> c \<and> c \<le> 90 then [c + 32]
      else if c = 8490 then [107]
      else if c = 304 then [105, 775]
      else [c])"

definition toLowerCase :: "jsstring \<Rightarrow> jsstring" where
  "toLowerCase s = concat (map lowerUnit s)"

fun startsWith :: "jsstring \<Rightarrow> jsstring \<Rightarrow> bool" where
  "startsWith s [] = True"
| "startsWith [] (p # ps) = False"
| "startsWith (c # cs) (p # ps) = (c = p \<and> startsWith cs ps)"

text \<open>\<open>s.includes(p)\<close>: \<open>p\<close> occurs in \<open>s\<close> as a contiguous run.\<close>

fun includes_str :: "jsstring \<Rightarrow> jsstring \<Rightarrow> bool" where
  "includes_str [] p = (p = [])"
| "includes_str (c # cs) p = (startsWith (c # cs) p \<or> includes_str cs p)"

datatype severity = low | medium | high

section \<open>Retry controller (ErrorHandler)\<close>

record RetryConfig =
  maxRetries :: nat
  baseDelay :: rat
  maxDelay :: rat
  backoffMultiplier :: rat

definition DEFAULT_RETRY_CONFIG :: "nat \<Rightarrow> RetryConfig" where
  \<comment> \<open>the argument is \<open>env.MAX_RETRIES\<close>, a positive integer with default 3\<close>
  "DEFAULT_RETRY_CONFIG envMaxRetries =
     \<lparr>maxRetries = envMaxRetries, baseDelay = 1000, maxDelay = 10000, backoffMultiplier = 2\<rparr>"

datatype ErrorType =
  RATE_LIMIT | TIMEOUT | NETWORK | INVALID_FILE | VALIDATION | API_ERROR | UNKNOWN

text \<open>
  What a rejected operation throws: an \<open>Error\<close> object with its message, or any other
  value, of which the code only reads \<open>String(error)\<close>.
\<close>

datatype thrown = Error jsstring | NonError jsstring

definition classifyError :: "thrown \<Rightarrow> ErrorType" where
  "classifyError error =
    (let errorMsg = (case error of Error message \<Rightarrow> toLowerCase message
                                 | NonError str \<Rightarrow> toLowerCase str)
     in if includes_str errorMsg (js ''rate limit'') \<or> includes_str errorMsg (js ''429'') then RATE_LIMIT
        else if includes_str errorMsg (js ''timeout'') \<or> includes_str errorMsg (js ''timed out'')
          then TIMEOUT
        else if includes_str errorMsg (js ''network'') \<or> includes_str errorMsg (js ''econnrefused'')
                \<or> includes_str errorMsg (js ''enotfound'') then NETWORK
        else if includes_str errorMsg (js ''invalid pdf'') \<or> includes_str errorMsg (js ''corrupt'')
                \<or> includes_str errorMsg (js ''malformed'') then INVALID_FILE
        else if includes_str errorMsg (js ''validation'') \<or> includes_str errorMsg (js ''parse'')
          then VALIDATION
        else if includes_str errorMsg (js ''api'') \<or> includes_str errorMsg (js ''401'')
                \<or> includes_str errorMsg (js ''403'') then API_ERROR
        else UNKNOWN)"

definition isRetryable :: "thrown \<Rightarrow> bool" where
  "isRetryable error =
     (let errorType = classifyError error;
          retryableErrors = [RATE_LIMIT, TIMEOUT, NETWORK, API_ERROR]
      in errorType \<in> set retryableErrors)"

text \<open>
  \<open>calculateDelay\<close>; the second argument is the value that \<open>Math.random()\<close> returns,
  a number in the interval from 0 (included) to 1 (excluded).
\<close>

definition calculateDelay :: "RetryConfig \<Rightarrow> nat \<Rightarrow> rat \<Rightarrow> rat" where
  "calculateDelay config attemptNumber random =
     (let delay = min (baseDelay config * backoffMultiplier config ^ attemptNumber)
                      (maxDelay config)
      in delay + random * 1000)"

text \<open>
  \<open>withRetry\<close>. The wrapped operation \<open>fn\<close> is called once per attempt and each call
  settles on its own, so \<open>fn\<close> is modelled by the outcome of its \<open>k\<close>-th call; in the
  same way \<open>random k\<close> is what \<open>Math.random()\<close> returns after the \<open>k\<close>-th call failed.
  \<open>calls\<close> counts the calls already made, \<open>currentAttempt\<close> is the parameter of the
  source (both 0 for a caller that uses the default). The result is what the returned
  promise settles to, together with the delays slept in between, in order. The logging
  is left out.
\<close>

datatype 'a settled = Fulfilled 'a | Rejected thrown

function withRetry ::
  "RetryConfig \<Rightarrow> (nat \<Rightarrow> 'a settled) \<Rightarrow> (nat \<Rightarrow> rat) \<Rightarrow> nat \<Rightarrow> nat \<Rightarrow> 'a settled \<times> rat list"
  where
  "withRetry config fn random calls currentAttempt =
     (case fn calls of
        Fulfilled v \<Rightarrow> (Fulfilled v, [])
      | Rejected error \<Rightarrow>
          if currentAttempt \<ge> maxRetries config then (Rejected error, [])
          else
            (let delay = calculateDelay config currentAttempt (random calls);
                 rest = withRetry config fn random (Suc calls) (currentAttempt + 1)
             in (fst rest, delay # snd rest)))"
  by pat_completeness auto
termination
  by (relation "measure (\<lambda>(config, fn, random, calls, currentAttempt).
        maxRetries config - currentAttempt)") auto

text \<open>
  An operation that fails once with a validation error and then succeeds, and the
  random source that always returns 0.
\<close>

definition failsOnceWithValidation :: "nat \<Rightarrow> nat settled" where
  "failsOnceWithValidation k =
     (if k = 0 then Rejected (Error (js ''Validation failed: productName: Required''))
      else Fulfilled 7)"

definition noJitter :: "nat \<Rightarrow> rat" where
  "noJitter k = 0"

definition alwaysUnknown :: "nat \<Rightarrow> nat settled" where
  "alwaysUnknown k = Rejected (Error (js ''boom''))"

declare withRetry.simps [simp del]

section \<open>Batch orchestrator (BatchProcessor)\<close>

text \<open>
  A JavaScript number that may be \<open>NaN\<close>: the quotient \<open>0 / 0\<close> is \<open>NaN\<close>, and so
  is \<open>NaN * 100\<close>.
\<close>

datatype jsnum = Num rat | NaN

record ProcessingResult =
  totalProcessed :: nat
  successCount :: nat
  failureCount :: nat
  skippedCount :: nat
  elapsedMs :: int
  successRate :: jsnum

record PDFFileMetadata =
  productCode :: jsstring
  pdf_productName :: jsstring
  pdf_subbrand :: "jsstring option"
  filePath :: jsstring
  folderPath :: jsstring
  fileName :: jsstring

record ScanResult =
  metadata :: "PDFFileMetadata list"
  validFiles :: nat
  invalidFiles :: nat

record ProcessingOptions =
  opt_concurrency :: "nat option"
  opt_skipExisting :: "bool option"
  opt_limit :: "int option"

text \<open>\<open>(successCount / (successCount + failureCount)) * 100\<close>\<close>

definition rateOf :: "nat \<Rightarrow> nat \<Rightarrow> jsnum" where
  "rateOf succeeded failed =
     (if succeeded + failed = 0 then NaN
      else Num ((of_nat succeeded / of_nat (succeeded + failed)) * 100))"

text \<open>
  The window loop of \<open>processAll\<close>. \<open>processSinglePDF j pdf\<close> is what the promise for
  the item at position \<open>j\<close> of the list settles to, \<open>isShuttingDownNow k\<close> what the
  shutdown handler answers when asked for the \<open>k\<close>-th time. An item counts as a success
  when its promise is fulfilled with \<open>true\<close>, as a failure otherwise. With
  \<open>concurrency = 0\<close> the loop of the source never advances; the model then has no
  result (\<open>None\<close>) unless a shutdown is requested.
\<close>

partial_function (option) windowLoop ::
  "nat \<Rightarrow> (nat \<Rightarrow> bool) \<Rightarrow> (nat \<Rightarrow> PDFFileMetadata \<Rightarrow> bool settled) \<Rightarrow> PDFFileMetadata list
    \<Rightarrow> nat \<Rightarrow> nat \<Rightarrow> nat \<Rightarrow> nat \<Rightarrow> (nat \<times> nat) option" where
  "windowLoop concurrency isShuttingDownNow processSinglePDF pdfsToProcess i k
      successes failures =
     (if i < length pdfsToProcess then
        (if isShuttingDownNow k then Some (successes, failures)
         else
           (let results = map (\<lambda>j. processSinglePDF j (pdfsToProcess ! j))
                              [i ..< min (i + concurrency) (length pdfsToProcess)];
                succeeded = length (filter (\<lambda>r. r = Fulfilled True) results);
                failed = length (filter (\<lambda>r. r \<noteq> Fulfilled True) results)
            in windowLoop concurrency isShuttingDownNow processSinglePDF pdfsToProcess
                 (i + concurrency) (Suc k) (successes + succeeded) (failures + failed)))
      else Some (successes, failures))"

declare windowLoop.simps [code]

text \<open>
  The selection of the work list in \<open>processAll\<close>: the filter on already processed
  products (\<open>skipExisting\<close> defaults to true) and the limit. \<open>isProductProcessed\<close> is the
  repository's answer for a product code. A \<open>limit\<close> with a fractional part is not
  modelled.
\<close>

definition filteredPdfs :: "ProcessingOptions \<Rightarrow> ScanResult \<Rightarrow> (jsstring \<Rightarrow> bool) \<Rightarrow> PDFFileMetadata list"
  where
  "filteredPdfs options scanResult isProductProcessed =
     (let skipExisting = (case opt_skipExisting options of None \<Rightarrow> True | Some b \<Rightarrow> b)
      in if skipExisting
         then filter (\<lambda>pdf. \<not> isProductProcessed (productCode pdf)) (metadata scanResult)
         else metadata scanResult)"

definition limitedPdfs :: "ProcessingOptions \<Rightarrow> PDFFileMetadata list \<Rightarrow> PDFFileMetadata list" where
  "limitedPdfs options filtered =
     (case opt_limit options of
        None \<Rightarrow> filtered
      | Some limit \<Rightarrow>
          if limit \<noteq> 0 \<and> limit > 0 \<and> int (length filtered) > limit
          then take (nat limit) filtered else filtered)"

text \<open>
  \<open>processAll\<close>. \<open>envConcurrency\<close> is \<open>env.CONCURRENT_PROCESSES\<close> (a positive integer
  by the configuration schema), \<open>elapsed\<close> the difference of the two clock readings.
\<close>

definition processAll ::
  "ProcessingOptions \<Rightarrow> nat \<Rightarrow> ScanResult \<Rightarrow> (jsstring \<Rightarrow> bool) \<Rightarrow> (nat \<Rightarrow> bool)
    \<Rightarrow> (nat \<Rightarrow> PDFFileMetadata \<Rightarrow> bool settled) \<Rightarrow> int \<Rightarrow> ProcessingResult option" where
  "processAll options envConcurrency scanResult isProductProcessed isShuttingDownNow
      processSinglePDF elapsed =
    (let concurrency = (case opt_concurrency options of
                          None \<Rightarrow> envConcurrency
                        | Some c \<Rightarrow> if c = 0 then envConcurrency else c)
     in if validFiles scanResult = 0 then
          Some \<lparr>totalProcessed = 0, successCount = 0, failureCount = 0, skippedCount = 0,
                elapsedMs = elapsed, successRate = Num 0\<rparr>
        else
          (let filtered = filteredPdfs options scanResult isProductProcessed;
               skipped = length (metadata scanResult) - length filtered;
               pdfsToProcess = limitedPdfs options filtered
           in if length pdfsToProcess = 0 then
                Some \<lparr>totalProcessed = 0, successCount = 0, failureCount = 0,
                      skippedCount = skipped, elapsedMs = elapsed, successRate = Num 100\<rparr>
              else
                (case windowLoop concurrency isShuttingDownNow processSinglePDF pdfsToProcess
                        0 0 0 0 of
                   None \<Rightarrow> None
                 | Some (succeeded, failed) \<Rightarrow>
                     Some \<lparr>totalProcessed = succeeded + failed, successCount = succeeded,
                           failureCount = failed, skippedCount = skipped,
                           elapsedMs = elapsed, successRate = rateOf succeeded failed\<rparr>)))"

text \<open>
  \<open>retryFailed\<close> awaits the items one at a time; a promise that rejects there makes
  \<open>retryFailed\<close> itself reject (\<open>Inl\<close>). The list is the metadata built from
  \<open>repository.getFailedProducts()\<close>.
\<close>

fun retryLoop ::
  "(nat \<Rightarrow> PDFFileMetadata \<Rightarrow> bool settled) \<Rightarrow> nat \<Rightarrow> PDFFileMetadata list \<Rightarrow> nat \<Rightarrow> nat
    \<Rightarrow> thrown + (nat \<times> nat)" where
  "retryLoop processSinglePDF j [] successes failures = Inr (successes, failures)"
| "retryLoop processSinglePDF j (pdf # rest) successes failures =
     (case processSinglePDF j pdf of
        Rejected e \<Rightarrow> Inl e
      | Fulfilled success \<Rightarrow>
          if success then retryLoop processSinglePDF (Suc j) rest (successes + 1) failures
          else retryLoop processSinglePDF (Suc j) rest successes (failures + 1))"

definition retryFailed ::
  "PDFFileMetadata list \<Rightarrow> (nat \<Rightarrow> PDFFileMetadata \<Rightarrow> bool settled) \<Rightarrow> int
    \<Rightarrow> thrown + ProcessingResult" where
  "retryFailed failedProducts processSinglePDF elapsed =
     (if length failedProducts = 0 then
        Inr \<lparr>totalProcessed = 0, successCount = 0, failureCount = 0, skippedCount = 0,
              elapsedMs = 0, successRate = Num 0\<rparr>
      else
        (case retryLoop processSinglePDF 0 failedProducts 0 0 of
           Inl e \<Rightarrow> Inl e
         | Inr (succeeded, failed) \<Rightarrow>
             Inr \<lparr>totalProcessed = succeeded + failed, successCount = succeeded,
                   failureCount = failed, skippedCount = 0, elapsedMs = elapsed,
                   successRate = rateOf succeeded failed\<rparr>))"

text \<open>Example data: one scanned PDF that the repository already holds.\<close>

definition pdfA :: PDFFileMetadata where
  "pdfA = \<lparr>productCode = js ''A100'', pdf_productName = js ''Alpha'', pdf_subbrand = None,
           filePath = js ''pdfs/A100.pdf'', folderPath = js ''pdfs'', fileName = js ''A100.pdf''\<rparr>"

definition pdfB :: PDFFileMetadata where
  "pdfB = \<lparr>productCode = js ''B200'', pdf_productName = js ''Beta'', pdf_subbrand = None,
           filePath = js ''pdfs/B200.pdf'', folderPath = js ''pdfs'', fileName = js ''B200.pdf''\<rparr>"

definition defaultOptions :: ProcessingOptions where
  "defaultOptions = \<lparr>opt_concurrency = None, opt_skipExisting = None, opt_limit = None\<rparr>"

definition scanOfA :: ScanResult where
  "scanOfA = \<lparr>metadata = [pdfA], validFiles = 1, invalidFiles = 0\<rparr>"

definition scanOfAB :: ScanResult where
  "scanOfAB = \<lparr>metadata = [pdfA, pdfB], validFiles = 2, invalidFiles = 0\<rparr>"

definition allProcessed :: "jsstring \<Rightarrow> bool" where
  "allProcessed code = True"

definition noneProcessed :: "jsstring \<Rightarrow> bool" where
  "noneProcessed code = False"

definition neverShutDown :: "nat \<Rightarrow> bool" where
  "neverShutDown k = False"

definition firstSucceeds :: "nat \<Rightarrow> PDFFileMetadata \<Rightarrow> bool settled" where
  "firstSucceeds j pdf = Fulfilled (j = 0)"

section \<open>Review prioritizer (ProductRepository.addToReviewQueue)\<close>

text \<open>
  The two kinds of finding that reach the review queue. Only the fields read by
  \<open>addToReviewQueue\<close> matter to it; the records carry the other fields of the source
  interfaces as well.
\<close>

datatype dtype = missing | different | extra

datatype review_status = pending | in_progress | resolved | dismissed

record ValidationWarning =
  w_fieldPath :: jsstring
  w_message :: jsstring
  w_severity :: severity

text \<open>
  A row of the table \<open>human_review_queue\<close>. The table is keyed by \<open>product_id\<close>
  (declared \<open>UNIQUE\<close>), so it is a map from product ids to rows. \<open>created_at\<close> is the
  value of \<open>CURRENT_TIMESTAMP\<close>, passed in as \<open>now\<close>.
\<close>

record queue_row =
  product_code :: jsstring
  total_discrepancies :: nat
  high_severity_count :: nat
  medium_severity_count :: nat
  review_status :: review_status
  review_priority :: nat
  created_at :: int

type_synonym review_queue = "nat \<rightharpoonup> queue_row"

text \<open>
  \<open>addToReviewQueue\<close> reads nothing but the severity of each comparison discrepancy, so
  it takes the list of their severities (\<open>discrepancies.map(d => d.severity)\<close>); the
  optional \<open>validationWarnings\<close> argument is an \<open>option\<close>, and
  \<open>validationWarnings || []\<close> is \<open>warningsOrEmpty\<close>.
\<close>

definition warningsOrEmpty :: "ValidationWarning list option \<Rightarrow> ValidationWarning list" where
  "warningsOrEmpty vw = (case vw of None \<Rightarrow> [] | Some ws \<Rightarrow> ws)"

definition addToReviewQueue ::
  "review_queue \<Rightarrow> int \<Rightarrow> nat \<Rightarrow> jsstring \<Rightarrow> severity list \<Rightarrow> ValidationWarning list option
    \<Rightarrow> review_queue" where
  "addToReviewQueue db now productId code discrepancies validationWarnings =
    (let comparisonHighCount = length (filter (\<lambda>d. d = high) discrepancies);
         comparisonMediumCount = length (filter (\<lambda>d. d = medium) discrepancies);
         validationHighCount =
           length (filter (\<lambda>w. w_severity w = high) (warningsOrEmpty validationWarnings));
         validationMediumCount =
           length (filter (\<lambda>w. w_severity w = medium) (warningsOrEmpty validationWarnings));
         totalHighCount = comparisonHighCount + validationHighCount;
         totalMediumCount = comparisonMediumCount + validationMediumCount;
         totalDiscrepancies = length discrepancies + length (warningsOrEmpty validationWarnings);
         priority = (validationHighCount * 3) + (comparisonHighCount * 2) + totalMediumCount
     in case db productId of
          None \<Rightarrow>
            db(productId \<mapsto>
              \<lparr>product_code = code, total_discrepancies = totalDiscrepancies,
               high_severity_count = totalHighCount, medium_severity_count = totalMediumCount,
               review_status = pending, review_priority = priority, created_at = now\<rparr>)
        | Some row \<Rightarrow>
            db(productId \<mapsto>
              row\<lparr>total_discrepancies := totalDiscrepancies,
                  high_severity_count := totalHighCount,
                  medium_severity_count := totalMediumCount,
                  review_priority := priority, created_at := now\<rparr>))"

text \<open>The priority formula in the words of the specification.\<close>

definition spec_priority :: "severity list \<Rightarrow> severity list \<Rightarrow> nat" where
  "spec_priority warningSeverities discrepancySeverities =
     3 * count_list warningSeverities high + 2 * count_list discrepancySeverities high
     + (count_list warningSeverities medium + count_list discrepancySeverities medium)"

section \<open>Rate limiter (RateLimiter.acquire)\<close>

text \<open>
  The limiter's state is the list \<open>requestTimes\<close> of admission timestamps, in
  milliseconds. \<open>acquire\<close> returns no value and has no failing path: it either records
  the current time or sleeps and calls itself again. The model returns the state it
  leaves, the time at which the caller was admitted and the waits it slept, in order.

  A sleep of \<open>waitTime\<close> ms ends no earlier than asked for, and other callers of the same
  limiter can be admitted while this one sleeps. So each element of \<open>env\<close> describes one
  sleep: by how much the timer was late, and which timestamps other callers have pushed
  in the meantime. When \<open>env\<close> is used up, timers are exact and nobody else is admitted.

  \<open>maxRequestsPerMinute\<close> is an integer; the configuration schema makes it positive.
  With an empty retained list \<open>requestTimes[0]\<close> is \<open>undefined\<close> and \<open>waitTime\<close> is
  \<open>NaN\<close>, for which \<open>waitTime > 0\<close> is false: the caller is admitted.
\<close>

record acquired =
  requestTimes :: "int list"
  admittedAt :: int
  waits :: "int list"

definition admit :: "int list \<Rightarrow> int \<Rightarrow> acquired" where
  "admit retained now = \<lparr>requestTimes = retained @ [now], admittedAt = now, waits = []\<rparr>"

definition afterWait :: "int \<Rightarrow> acquired \<Rightarrow> acquired" where
  "afterWait waitTime r = r\<lparr>waits := waitTime # waits r\<rparr>"

function acquire :: "int \<Rightarrow> int list \<Rightarrow> int \<Rightarrow> (nat \<times> int list) list \<Rightarrow> acquired" where
  "acquire maxRequestsPerMinute recorded now env =
     (let oneMinuteAgo = now - 60000;
          retained = filter (\<lambda>time. time > oneMinuteAgo) recorded
      in if int (length retained) \<ge> maxRequestsPerMinute then
           (case retained of
              [] \<Rightarrow> admit retained now
            | oldestRequest # others \<Rightarrow>
                (let waitTime = 60000 - (now - oldestRequest) + 100
                 in if waitTime > 0 then
                      (case env of
                         [] \<Rightarrow>
                           afterWait waitTime
                             (acquire maxRequestsPerMinute retained (now + waitTime) [])
                       | (late, pushed) # env' \<Rightarrow>
                           afterWait waitTime
                             (acquire maxRequestsPerMinute (retained @ pushed)
                                (now + waitTime + int late) env'))
                    else admit retained now))
         else admit retained now)"
  by pat_completeness auto
termination
proof (relation "measures [\<lambda>(m, recorded, now, env). length env,
                           \<lambda>(m, recorded, now, env). length (filter (\<lambda>t. t > now - 60000) recorded)]",
       goal_cases)
  case 1
  show ?case by simp
next
  case (2 m recorded now env oneMinuteAgo retained oldest others waitTime)
  have r: "retained = oldest # others" using 2 by simp
  have w: "now + waitTime - 60000 = oldest + 100" using 2 by simp
  have "length (filter (\<lambda>t. t > now + waitTime - 60000) retained)
        = length (filter (\<lambda>t. t > oldest + 100) others)"
    unfolding r w by simp
  also have "\<dots> \<le> length others" by (rule length_filter_le)
  also have "\<dots> < length retained" unfolding r by simp
  finally have "length (filter (\<lambda>t. t > now + waitTime - 60000) retained)
      < length (filter (\<lambda>t. t > now - 60000) recorded)"
    using 2 by simp
  then show ?case using 2 by simp
next
  case 3
  then show ?case by simp
qed

declare acquire.simps [simp del]

section \<open>String operations of the standard library\<close>

text \<open>
  The white space of \<open>String.prototype.trim\<close> and of the regular-expression class
  \<open>\s\<close>: tab, line feed, vertical tab, form feed, carriage return, space, no-break space,
  U+1680, U+2000 to U+200A, the line and paragraph separators, U+202F, U+205F, U+3000 and
  the byte-order mark.
\<close>

definition isSpace :: "nat \<Rightarrow> bool" where
  "isSpace c = ((9 \<le> c \<and> c \<le> 13) \<or> c = 32 \<or> c = 160 \<or> c = 5760 \<or> (8192 \<le> c \<and> c \<le> 8202)
     \<or> c = 8232 \<or> c = 8233 \<or> c = 8239 \<or> c = 8287 \<or> c = 12288 \<or> c = 65279)"


definition isDigit :: "nat \<Rightarrow> bool" where
  \<comment> \<open>\<open>\d\<close>, \<open>[0-9]\<close>\<close>
  "isDigit c = (48 \<le> c \<and> c \<le> 57)"

definition isLower :: "nat \<Rightarrow> bool" where
  \<comment> \<open>\<open>[a-z]\<close>\<close>
  "isLower c = (97 \<le> c \<and> c \<le> 122)"

definition isUpper :: "nat \<Rightarrow> bool" where
  \<comment> \<open>\<open>[A-Z]\<close>\<close>
  "isUpper c = (65 \<le> c \<and> c \<le> 90)"

definition trim :: "jsstring \<Rightarrow> jsstring" where
  "trim s = rev (dropWhile isSpace (rev (dropWhile isSpace s)))"


text \<open>
  \<open>s.indexOf(c)\<close> for a single code unit, with \<open>None\<close> for the result \<open>-1\<close>, and
  \<open>s.substring(i, j)\<close> for indices \<open>0 \<le> i \<le> j\<close>; \<open>s.substring(i)\<close> is \<open>drop i s\<close>.
\<close>

fun indexOf :: "jsstring \<Rightarrow> nat \<Rightarrow> nat option" where
  "indexOf [] c = None"
| "indexOf (x # xs) c = (if x = c then Some 0 else map_option Suc (indexOf xs c))"

definition substring :: "jsstring \<Rightarrow> nat \<Rightarrow> nat \<Rightarrow> jsstring" where
  "substring s i j = take (j - i) (drop i s)"






section \<open>Parsed JSON values and the extraction schema (json-validator)\<close>

text \<open>
  What \<open>JSON.parse\<close> returns. An object is the list of its own properties, and
  \<open>getProp v k\<close> is the property read \<open>v[k]\<close>, with \<open>None\<close> for \<open>undefined\<close>. The code
  reads only properties with fixed names, none of which is inherited from
  \<open>Object.prototype\<close> or defined on arrays, so a value that is not an object has none of
  them. \<open>typeof v === 'object' && v !== null\<close> holds of objects and of arrays.
\<close>

datatype json =
  JNull | JBool bool | JNum rat | JStr jsstring | JArr "json list"
  | JObj "(jsstring \<times> json) list"

definition getProp :: "json \<Rightarrow> string \<Rightarrow> json option" where
  "getProp v k = (case v of JObj kvs \<Rightarrow> map_of kvs (js k) | _ \<Rightarrow> None)"

definition isObject :: "json \<Rightarrow> bool" where
  "isObject v = (case v of JObj kvs \<Rightarrow> True | JArr xs \<Rightarrow> True | _ \<Rightarrow> False)"

text \<open>A field of type \<open>string | null | undefined\<close>.\<close>

datatype optstr = Undefined | Null | Str jsstring

record NutrientData =
  name :: jsstring
  amount :: optstr
  dailyValuePercentAdult :: optstr
  dailyValuePercentChildren :: optstr
  dailyValuePercent :: optstr

record SupplementFactsData =
  servings :: jsstring
  servingsPerContainer :: jsstring
  calories :: optstr
  protein :: optstr
  nutrients :: "NutrientData list"

record IngredientData =
  ing_name :: jsstring
  isOrganic :: bool

record ProductExtractionData =
  productName :: jsstring
  productSlogan :: optstr
  productDescription :: jsstring
  subbrand :: optstr
  supplementFacts :: "SupplementFactsData option"
  ingredients :: "IngredientData list"
  directions :: jsstring
  caution :: optstr
  dietaryAttributes :: "jsstring list"
  references :: optstr

text \<open>
  The schema combinators of the validation library as the schemas use them.
  \<open>z.string().min(1)\<close> accepts a string of at least one code unit;
  \<open>z.string().nullable().optional()\<close>, with or without a \<open>regex\<close> test, accepts
  \<open>undefined\<close>, \<open>null\<close> and the strings that pass the test; \<open>z.array(s).default([])\<close>
  turns \<open>undefined\<close> into the empty array and otherwise wants an array all of whose
  elements parse; \<open>z.object\<close> wants an object that is not an array, parses the listed
  keys one after the other and drops the others. A failed parse (a thrown \<open>ZodError\<close>)
  is \<open>None\<close>.
\<close>

definition zString1 :: "json option \<Rightarrow> jsstring option" where
  "zString1 v = (case v of Some (JStr s) \<Rightarrow> if length s \<ge> 1 then Some s else None | _ \<Rightarrow> None)"

definition zOptStr :: "(jsstring \<Rightarrow> bool) \<Rightarrow> json option \<Rightarrow> optstr option" where
  "zOptStr test v =
     (case v of
        None \<Rightarrow> Some Undefined
      | Some JNull \<Rightarrow> Some Null
      | Some (JStr s) \<Rightarrow> if test s then Some (Str s) else None
      | Some other \<Rightarrow> None)"

definition zArray :: "(json \<Rightarrow> 'a option) \<Rightarrow> json option \<Rightarrow> 'a list option" where
  "zArray element v =
     (case v of
        None \<Rightarrow> Some []
      | Some (JArr xs) \<Rightarrow> those (map element xs)
      | Some other \<Rightarrow> None)"

definition zBooleanDefaultFalse :: "json option \<Rightarrow> bool option" where
  "zBooleanDefaultFalse v =
     (case v of None \<Rightarrow> Some False | Some (JBool b) \<Rightarrow> Some b | Some other \<Rightarrow> None)"

definition zPlainString :: "json \<Rightarrow> jsstring option" where
  "zPlainString v = (case v of JStr s \<Rightarrow> Some s | _ \<Rightarrow> None)"

definition anyString :: "jsstring \<Rightarrow> bool" where
  "anyString s = True"

text \<open>\<open>/^<?[\d.]+\s*[a-zA-Z]+/\<close>, the test on a nutrient amount.\<close>

definition isDigitOrDot :: "nat \<Rightarrow> bool" where
  "isDigitOrDot c = (isDigit c \<or> c = 46)"

definition dropLessThan :: "jsstring \<Rightarrow> jsstring" where
  \<comment> \<open>\<open><?\<close> at the start\<close>
  "dropLessThan s = (case s of [] \<Rightarrow> [] | c # cs \<Rightarrow> if c = 60 then cs else c # cs)"

definition amountPattern :: "jsstring \<Rightarrow> bool" where
  "amountPattern s =
     (let s1 = dropLessThan s;
          number = takeWhile isDigitOrDot s1;
          s2 = dropWhile isSpace (dropWhile isDigitOrDot s1)
      in number \<noteq> [] \<and> (case s2 of [] \<Rightarrow> False | c # cs \<Rightarrow> isLower c \<or> isUpper c))"

text \<open>\<open>/^<?[\d.]+$/\<close>, the test on a daily-value percentage.\<close>

definition percentPattern :: "jsstring \<Rightarrow> bool" where
  "percentPattern s =
     (let s1 = dropLessThan s
      in takeWhile isDigitOrDot s1 \<noteq> [] \<and> dropWhile isDigitOrDot s1 = [])"

definition nutrientSchema :: "json \<Rightarrow> NutrientData option" where
  "nutrientSchema v =
     (case v of
        JObj kvs \<Rightarrow>
          do {
            n \<leftarrow> zString1 (getProp v ''name'');
            a \<leftarrow> zOptStr amountPattern (getProp v ''amount'');
            da \<leftarrow> zOptStr percentPattern (getProp v ''dailyValuePercentAdult'');
            dc \<leftarrow> zOptStr percentPattern (getProp v ''dailyValuePercentChildren'');
            dl \<leftarrow> zOptStr anyString (getProp v ''dailyValuePercent'');
            Some \<lparr>name = n, amount = a, dailyValuePercentAdult = da,
                  dailyValuePercentChildren = dc, dailyValuePercent = dl\<rparr>
          }
      | _ \<Rightarrow> None)"

definition supplementFactsSchema :: "json \<Rightarrow> SupplementFactsData option" where
  "supplementFactsSchema v =
     (case v of
        JObj kvs \<Rightarrow>
          do {
            s \<leftarrow> zString1 (getProp v ''servings'');
            spc \<leftarrow> zString1 (getProp v ''servingsPerContainer'');
            c \<leftarrow> zOptStr anyString (getProp v ''calories'');
            p \<leftarrow> zOptStr anyString (getProp v ''protein'');
            ns \<leftarrow> zArray nutrientSchema (getProp v ''nutrients'');
            Some \<lparr>servings = s, servingsPerContainer = spc, calories = c, protein = p,
                  nutrients = ns\<rparr>
          }
      | _ \<Rightarrow> None)"

definition ingredientSchema :: "json \<Rightarrow> IngredientData option" where
  "ingredientSchema v =
     (case v of
        JObj kvs \<Rightarrow>
          do {
            n \<leftarrow> zString1 (getProp v ''name'');
            b \<leftarrow> zBooleanDefaultFalse (getProp v ''isOrganic'');
            Some \<lparr>ing_name = n, isOrganic = b\<rparr>
          }
      | _ \<Rightarrow> None)"

text \<open>\<open>supplementFactsSchema.optional()\<close>: \<open>undefined\<close> stays, anything else must parse.\<close>

definition zOptionalFacts :: "json option \<Rightarrow> SupplementFactsData option option" where
  "zOptionalFacts v =
     (case v of None \<Rightarrow> Some None | Some sfv \<Rightarrow> map_option Some (supplementFactsSchema sfv))"

definition productExtractionSchema :: "json \<Rightarrow> ProductExtractionData option" where
  "productExtractionSchema v =
     (case v of
        JObj kvs \<Rightarrow>
          do {
            pn \<leftarrow> zString1 (getProp v ''productName'');
            ps \<leftarrow> zOptStr anyString (getProp v ''productSlogan'');
            pd \<leftarrow> zString1 (getProp v ''productDescription'');
            sb \<leftarrow> zOptStr anyString (getProp v ''subbrand'');
            sf \<leftarrow> zOptionalFacts (getProp v ''supplementFacts'');
            ings \<leftarrow> zArray ingredientSchema (getProp v ''ingredients'');
            d \<leftarrow> zString1 (getProp v ''directions'');
            c \<leftarrow> zOptStr anyString (getProp v ''caution'');
            das \<leftarrow> zArray zPlainString (getProp v ''dietaryAttributes'');
            r \<leftarrow> zOptStr anyString (getProp v ''references'');
            Some \<lparr>productName = pn, productSlogan = ps, productDescription = pd,
                  subbrand = sb, supplementFacts = sf, ingredients = ings, directions = d,
                  caution = c, dietaryAttributes = das, references = r\<rparr>
          }
      | _ \<Rightarrow> None)"

text \<open>
  \<open>safeParseProductExtraction\<close>. \<open>stringOr v d\<close> is
  \<open>typeof v === 'string' ? v : d\<close> and \<open>stringOrNull v\<close> the same with \<open>null\<close>.
\<close>

definition stringOr :: "json option \<Rightarrow> jsstring \<Rightarrow> jsstring" where
  "stringOr v d = (case v of Some (JStr s) \<Rightarrow> s | _ \<Rightarrow> d)"

definition stringOrNull :: "json option \<Rightarrow> optstr" where
  "stringOrNull v = (case v of Some (JStr s) \<Rightarrow> Str s | _ \<Rightarrow> Null)"

definition hasStringName :: "json \<Rightarrow> bool" where
  \<comment> \<open>the filter on the raw nutrient entries\<close>
  "hasStringName n = (isObject n \<and> (case getProp n ''name'' of Some (JStr s) \<Rightarrow> True | _ \<Rightarrow> False))"

definition salvageNutrient :: "json \<Rightarrow> NutrientData" where
  "salvageNutrient nutrient =
     \<lparr>name = stringOr (getProp nutrient ''name'') [],
      amount = stringOrNull (getProp nutrient ''amount''),
      dailyValuePercentAdult =
        (case getProp nutrient ''dailyValuePercentAdult'' of
           Some (JStr s) \<Rightarrow> Str s
         | _ \<Rightarrow> stringOrNull (getProp nutrient ''dailyValuePercent'')),
      dailyValuePercentChildren = stringOrNull (getProp nutrient ''dailyValuePercentChildren''),
      dailyValuePercent = Undefined\<rparr>"

definition salvageSupplementFacts :: "json \<Rightarrow> SupplementFactsData option" where
  "salvageSupplementFacts partial =
     (case getProp partial ''supplementFacts'' of
        None \<Rightarrow> None
      | Some sfPartial \<Rightarrow>
          if isObject sfPartial then
            (case supplementFactsSchema sfPartial of
               Some sf \<Rightarrow> Some sf
             | None \<Rightarrow>
                 (case getProp sfPartial ''nutrients'' of
                    Some (JArr ns) \<Rightarrow>
                      Some \<lparr>servings = stringOr (getProp sfPartial ''servings'') (js ''1''),
                            servingsPerContainer =
                              stringOr (getProp sfPartial ''servingsPerContainer'') (js ''1''),
                            calories = stringOrNull (getProp sfPartial ''calories''),
                            protein = stringOrNull (getProp sfPartial ''protein''),
                            nutrients = map salvageNutrient (filter hasStringName ns)\<rparr>
                  | _ \<Rightarrow> None))
          else None)"

definition safeParseProductExtraction :: "json \<Rightarrow> ProductExtractionData option" where
  "safeParseProductExtraction data =
     (case productExtractionSchema data of
        Some parsed \<Rightarrow> Some parsed
      | None \<Rightarrow>
          if isObject data then
            Some \<lparr>productName = stringOr (getProp data ''productName'') (js ''Unknown''),
                  productSlogan = stringOrNull (getProp data ''productSlogan''),
                  productDescription =
                    stringOr (getProp data ''productDescription'') (js ''No description available''),
                  subbrand = stringOrNull (getProp data ''subbrand''),
                  supplementFacts = salvageSupplementFacts data,
                  ingredients = [],
                  directions = stringOr (getProp data ''directions'') (js ''No directions provided''),
                  caution = stringOrNull (getProp data ''caution''),
                  dietaryAttributes = [],
                  references = stringOrNull (getProp data ''references'')\<rparr>
          else None)"

section \<open>Normalization (data-normalizer)\<close>










definition asciiFold :: "nat \<Rightarrow> nat" where
  "asciiFold c = (if isUpper c then c + 32 else c)"


















section \<open>Extraction client: validation and salvage (AIExtractor.extractProductInfo)\<close>







record ExtractionResult =
  success :: bool
  data :: "ProductExtractionData option"
  rawResponse :: "jsstring option"
  error :: "jsstring option"
  processingTimeMs :: int
  retryCount :: nat
  validationWarnings :: "ValidationWarning list option"


text \<open>
  What it means that a salvaged nutrient keeps the fields of the raw entry it comes
  from: the name, and each of the amount and the two daily values that the raw entry
  gives as a string; a legacy \<open>dailyValuePercent\<close> string of an entry without an adult
  daily-value string is found in \<open>dailyValuePercentAdult\<close> or, where the block passed
  its schema and is returned as validated, still in \<open>dailyValuePercent\<close>.
\<close>

definition isStringValue :: "json option \<Rightarrow> bool" where
  "isStringValue v = (case v of Some (JStr s) \<Rightarrow> True | _ \<Rightarrow> False)"


text \<open>Example data: a recovered value without description and directions.\<close>

definition ironEntry :: json where
  "ironEntry = JObj [(js ''name'', JStr (js ''Iron'')), (js ''amount'', JStr (js ''18 mg'')),
                     (js ''dailyValuePercent'', JStr (js ''100''))]"

definition zincEntry :: json where
  "zincEntry = JObj [(js ''name'', JStr (js ''Zinc'')), (js ''amount'', JNum 11)]"

definition namelessEntry :: json where
  "namelessEntry = JObj [(js ''amount'', JStr (js ''5 mg''))]"

definition rawFacts :: json where
  "rawFacts = JObj [(js ''servings'', JNum 2),
                    (js ''nutrients'', JArr [ironEntry, namelessEntry, zincEntry])]"

definition recovered :: json where
  "recovered = JObj [(js ''productName'', JStr (js ''Iron Plus'')),
                     (js ''supplementFacts'', rawFacts),
                     (js ''ingredients'', JArr [JObj [(js ''name'', JStr (js ''Rice flour''))]]),
                     (js ''dietaryAttributes'', JArr [JStr (js ''Vegan'')])]"

definition noIssues :: "json \<Rightarrow> jsstring list" where
  "noIssues v = []"


section \<open>Comparison engine (ComparisonEngine)\<close>

text \<open>
  The values that a discrepancy carries: \<open>null\<close>, \<open>undefined\<close>, a string or a whole
  nutrient entry.
\<close>

datatype dvalue = VNull | VUndefined | VString jsstring | VNutrient NutrientData

record Discrepancy =
  d_fieldPath :: jsstring
  d_claudeValue :: dvalue
  d_grokValue :: dvalue
  d_type :: dtype
  d_severity :: severity
  d_confidenceScore :: nat
  d_description :: jsstring

record FieldCounts =
  fc_total :: nat
  fc_matching :: nat
  fc_different :: nat
  fc_missing :: nat

record ComparisonResult =
  hasDiscrepancies :: bool
  discrepancies :: "Discrepancy list"
  similarityScore :: rat
  recommendsReview :: bool
  fieldCounts :: FieldCounts












































section \<open>Recovery cascade (json-extractor and AIExtractor.extractJSONWithValidator)\<close>

text \<open>
  \<open>JSON.parse\<close> and \<open>JSON5.parse\<close> belong to the platform and to a library; both are
  parameters of the model, functions from a text to the parsed value, with \<open>None\<close> when
  the parser throws. Each strategy catches what it throws, so a strategy is a function
  from the text to the value it found, if any; the message of a failed strategy, which no
  caller reads, is left out.
\<close>

type_synonym parser = "jsstring \<Rightarrow> json option"


text \<open>
  \<open>findBalancedJSON\<close>: the loop over the text from \<open>startIndex\<close>, with its three
  variables; the result \<open>-1\<close> is \<open>None\<close>. The code units are the backslash (92), the
  double quote (34) and the braces (123, 125).
\<close>

fun scanBalanced :: "jsstring \<Rightarrow> nat \<Rightarrow> int \<Rightarrow> bool \<Rightarrow> bool \<Rightarrow> nat option" where
  "scanBalanced [] i braceCount inString escaped = None"
| "scanBalanced (c # cs) i braceCount inString escaped =
     (if escaped then scanBalanced cs (i + 1) braceCount inString False
      else if c = 92 then scanBalanced cs (i + 1) braceCount inString True
      else if c = 34 then scanBalanced cs (i + 1) braceCount (\<not> inString) False
      else if \<not> inString then
        (let opened = (if c = 123 then braceCount + 1 else braceCount)
         in if c = 125 then
              (if opened - 1 = 0 then Some (i + 1)
               else scanBalanced cs (i + 1) (opened - 1) inString False)
            else scanBalanced cs (i + 1) opened inString False)
      else scanBalanced cs (i + 1) braceCount inString False)"

definition findBalancedJSON :: "jsstring \<Rightarrow> nat \<Rightarrow> nat option" where
  "findBalancedJSON text startIndex = scanBalanced (drop startIndex text) startIndex 0 False False"

text \<open>The text between the first opening brace and the brace that balances it.\<close>

definition balancedSlice :: "jsstring \<Rightarrow> jsstring option" where
  "balancedSlice text =
     (case indexOf text 123 of
        None \<Rightarrow> None
      | Some firstBrace \<Rightarrow>
          (case findBalancedJSON text firstBrace of
             None \<Rightarrow> None
           | Some endIndex \<Rightarrow> Some (substring text firstBrace endIndex)))"


text \<open>
  The four regular expressions of the code-block strategy. \<open>afterFirst text tag\<close> is the
  text behind the first occurrence of \<open>tag\<close>, \<open>beforeFirst text tag\<close> the text in front
  of it. \<open>closedBlock tag\<close> is the group of \<open>/tag\s*([\s\S]*?)```/\<close>: behind the first
  \<open>tag\<close> and the white space that follows it, up to the next fence; \<open>openBlock tag\<close> is
  the group of \<open>/tag\s*([\s\S]*?)$/\<close>, which runs to the end of the text. In both the
  leftmost match starts at the first occurrence of the tag.
\<close>

fun afterFirst :: "jsstring \<Rightarrow> jsstring \<Rightarrow> jsstring option" where
  "afterFirst [] tag = (if tag = [] then Some [] else None)"
| "afterFirst (c # cs) tag =
     (if startsWith (c # cs) tag then Some (drop (length tag) (c # cs)) else afterFirst cs tag)"

fun beforeFirst :: "jsstring \<Rightarrow> jsstring \<Rightarrow> jsstring option" where
  "beforeFirst [] tag = (if tag = [] then Some [] else None)"
| "beforeFirst (c # cs) tag =
     (if startsWith (c # cs) tag then Some []
      else map_option (\<lambda>r. c # r) (beforeFirst cs tag))"

definition fence :: jsstring where
  "fence = [96, 96, 96]"

definition jsonFence :: jsstring where
  "jsonFence = [96, 96, 96] @ js ''json''"

definition closedBlock :: "jsstring \<Rightarrow> jsstring \<Rightarrow> jsstring option" where
  "closedBlock tag text =
     (case afterFirst text tag of
        None \<Rightarrow> None
      | Some rest \<Rightarrow> beforeFirst (dropWhile isSpace rest) fence)"


definition braceContent :: "jsstring option \<Rightarrow> jsstring option" where
  \<comment> \<open>the trimmed group of a match, if it starts with an opening brace\<close>
  "braceContent block =
     (case block of
        None \<Rightarrow> None
      | Some g \<Rightarrow> if startsWith (trim g) [123] then Some (trim g) else None)"


text \<open>
  The phrases that the cleanup strategy removes are sequences of literal characters
  (matched without regard to the case of ASCII letters, flag \<open>i\<close>), optional characters,
  and runs of a character class. No element of these patterns can match a character that
  the element before it could also have taken, so matching them greedily from left to
  right is what the regular-expression engine does. \<open>matchAtoms\<close> gives the length of
  the match at the start of the text; \<open>removeAll\<close> is \<open>replace(pattern, '')\<close> with the
  flag \<open>g\<close>.
\<close>

datatype atom = Ch nat | OptCh nat | Plus "nat \<Rightarrow> bool" | Star "nat \<Rightarrow> bool"

fun matchAtoms :: "atom list \<Rightarrow> jsstring \<Rightarrow> nat option" where
  "matchAtoms [] s = Some 0"
| "matchAtoms (Ch c # as) s =
     (case s of
        [] \<Rightarrow> None
      | x # xs \<Rightarrow> if asciiFold x = asciiFold c then map_option Suc (matchAtoms as xs) else None)"
| "matchAtoms (OptCh c # as) s =
     (case s of
        [] \<Rightarrow> matchAtoms as s
      | x # xs \<Rightarrow> if asciiFold x = asciiFold c then map_option Suc (matchAtoms as xs)
                  else matchAtoms as s)"
| "matchAtoms (Plus cls # as) s =
     (if takeWhile cls s = [] then None
      else map_option (\<lambda>n. length (takeWhile cls s) + n) (matchAtoms as (dropWhile cls s)))"
| "matchAtoms (Star cls # as) s =
     map_option (\<lambda>n. length (takeWhile cls s) + n) (matchAtoms as (dropWhile cls s))"

function removeAll :: "atom list \<Rightarrow> jsstring \<Rightarrow> jsstring" where
  "removeAll pattern [] = []"
| "removeAll pattern (c # cs) =
     (case matchAtoms pattern (c # cs) of
        None \<Rightarrow> c # removeAll pattern cs
      | Some n \<Rightarrow> if n = 0 then c # removeAll pattern cs
                  else removeAll pattern (drop (n - 1) cs))"
  by pat_completeness auto
termination
  by (relation "measure (\<lambda>(pattern, s). length s)") auto

definition word :: "string \<Rightarrow> atom list" where
  "word w = map Ch (js w)"

definition spaces :: "atom list" where
  \<comment> \<open>\<open>\s+\<close>\<close>
  "spaces = [Plus isSpace]"

definition colonOrSpace :: "nat \<Rightarrow> bool" where
  \<comment> \<open>\<open>[:\s]\<close>\<close>
  "colonOrSpace c = (c = 58 \<or> isSpace c)"

definition dotOrSpace :: "nat \<Rightarrow> bool" where
  \<comment> \<open>\<open>[.\s]\<close>\<close>
  "dotOrSpace c = (c = 46 \<or> isSpace c)"

definition anyUnit :: "nat \<Rightarrow> bool" where
  \<comment> \<open>\<open>[.\s\S]\<close>\<close>
  "anyUnit c = True"

definition patternsToRemove :: "atom list list" where
  "patternsToRemove =
     [word ''here'' @ spaces @ word ''is'' @ spaces @ word ''the'' @ spaces @ word ''extracted''
        @ spaces @ word ''data'' @ [Star colonOrSpace],
      word ''i'' @ spaces @ word ''hope'' @ spaces @ word ''this'' @ spaces @ word ''helps''
        @ [Star dotOrSpace],
      word ''let'' @ spaces @ word ''me'' @ spaces @ word ''know'' @ spaces @ word ''if''
        @ spaces @ word ''you'' @ spaces @ word ''need'' @ [Star anyUnit],
      word ''here'' @ [OptCh 39, OptCh 115] @ spaces @ word ''the'' @ spaces @ word ''json''
        @ [Star colonOrSpace],
      word ''the'' @ spaces @ word ''extracted'' @ spaces @ word ''information''
        @ [Star colonOrSpace],
      word ''based'' @ spaces @ word ''on'' @ spaces @ word ''the'' @ spaces @ word ''document''
        @ [Star colonOrSpace]]"

definition cleanText :: "jsstring \<Rightarrow> jsstring" where
  "cleanText text = trim (foldl (\<lambda>cleaned pattern. removeAll pattern cleaned) text patternsToRemove)"


text \<open>
  The three repairs, each a loop over the text with the flags \<open>inString\<close> and
  \<open>escaped\<close>; the code units are the line feed (10), the carriage return (13), the comma
  (44), the closing bracket (93) and the letter n (110).
\<close>

fun repairUnescapedNewlines :: "jsstring \<Rightarrow> bool \<Rightarrow> bool \<Rightarrow> jsstring" where
  "repairUnescapedNewlines [] inString escaped = []"
| "repairUnescapedNewlines (c # cs) inString escaped =
     (if escaped then c # repairUnescapedNewlines cs inString False
      else if c = 92 then c # repairUnescapedNewlines cs inString True
      else if c = 34 then c # repairUnescapedNewlines cs (\<not> inString) False
      else if inString \<and> (c = 10 \<or> c = 13) then
        (if c = 13 \<and> (case cs of [] \<Rightarrow> False | d # ds \<Rightarrow> d = 10)
         then repairUnescapedNewlines cs inString False
         else 92 # 110 # repairUnescapedNewlines cs inString False)
      else c # repairUnescapedNewlines cs inString False)"

definition maxStringLength :: nat where
  "maxStringLength = 2000"

definition truncated :: "jsstring \<Rightarrow> jsstring" where
  "truncated content =
     (if length content > maxStringLength
      then substring content 0 (maxStringLength - 3) @ js ''...''
      else content)"

fun truncateLongStrings :: "jsstring \<Rightarrow> bool \<Rightarrow> bool \<Rightarrow> jsstring \<Rightarrow> jsstring" where
  "truncateLongStrings [] inString escaped currentStringContent =
     (if inString then truncated currentStringContent @ [34] else [])"
| "truncateLongStrings (c # cs) inString escaped currentStringContent =
     (if escaped then
        (if inString then truncateLongStrings cs inString False (currentStringContent @ [92, c])
         else 92 # c # truncateLongStrings cs inString False currentStringContent)
      else if c = 92 then truncateLongStrings cs inString True currentStringContent
      else if c = 34 then
        (if \<not> inString then 34 # truncateLongStrings cs True False []
         else truncated currentStringContent @ [34] @ truncateLongStrings cs False False [])
      else if inString then truncateLongStrings cs inString False (currentStringContent @ [c])
      else c # truncateLongStrings cs inString False currentStringContent)"

fun repairUnterminatedStrings :: "jsstring \<Rightarrow> bool \<Rightarrow> bool \<Rightarrow> jsstring" where
  "repairUnterminatedStrings [] inString escaped = (if inString then [34] else [])"
| "repairUnterminatedStrings (c # cs) inString escaped =
     (if escaped then c # repairUnterminatedStrings cs inString False
      else if c = 92 then c # repairUnterminatedStrings cs inString True
      else if c = 34 then c # repairUnterminatedStrings cs (\<not> inString) False
      else if inString \<and> (c = 44 \<or> c = 125 \<or> c = 93)
        then 34 # c # repairUnterminatedStrings cs False False
      else c # repairUnterminatedStrings cs inString False)"

definition repairCommonJSONErrors :: "parser \<Rightarrow> jsstring \<Rightarrow> json option" where
  "repairCommonJSONErrors jsonParse text =
     (case balancedSlice text of
        None \<Rightarrow> None
      | Some slice \<Rightarrow>
          jsonParse
            (repairUnterminatedStrings
               (truncateLongStrings (repairUnescapedNewlines slice False False) False False [])
               False False))"

definition tryJSON5Parse :: "parser \<Rightarrow> jsstring \<Rightarrow> json option" where
  "tryJSON5Parse json5Parse text =
     (case indexOf text 123 of
        None \<Rightarrow> None
      | Some firstBrace \<Rightarrow>
          (case findBalancedJSON text firstBrace of
             None \<Rightarrow> json5Parse text
           | Some endIndex \<Rightarrow> json5Parse (substring text firstBrace endIndex)))"



text \<open>
  The result of a cascade: \<open>success\<close>, and \<open>data\<close> and \<open>strategy\<close> or \<open>error\<close>.
\<close>

record Recovery =
  r_success :: bool
  r_data :: "json option"
  r_strategy :: "jsstring option"
  r_error :: "jsstring option"

definition succeeded :: "json \<Rightarrow> string \<Rightarrow> Recovery" where
  "succeeded v strategyName =
     \<lparr>r_success = True, r_data = Some v, r_strategy = Some (js strategyName), r_error = None\<rparr>"

definition allFailed :: Recovery where
  "allFailed = \<lparr>r_success = False, r_data = None, r_strategy = None,
                r_error = Some (js ''All extraction strategies failed'')\<rparr>"

definition accepted :: "(json \<Rightarrow> bool) \<Rightarrow> json option \<Rightarrow> json option" where
  \<comment> \<open>\<open>result.success && validator(result.data)\<close>\<close>
  "accepted validator result =
     (case result of None \<Rightarrow> None | Some v \<Rightarrow> if validator v then Some v else None)"


text \<open>
  The strategies of the extraction client, which take the validator. They differ from the
  ones above in the code-block strategy: it knows the two closed forms only, and goes on
  to the generic block when the validator rejects the \<open>json\<close> block.
\<close>

definition tryDirectParseWithValidator :: "parser \<Rightarrow> jsstring \<Rightarrow> (json \<Rightarrow> bool) \<Rightarrow> json option"
  where
  "tryDirectParseWithValidator jsonParse text validator =
     accepted validator (jsonParse (trim text))"

definition tryBalancedBracesWithValidator ::
  "parser \<Rightarrow> jsstring \<Rightarrow> (json \<Rightarrow> bool) \<Rightarrow> json option" where
  "tryBalancedBracesWithValidator jsonParse text validator =
     (case balancedSlice text of
        None \<Rightarrow> None
      | Some jsonString \<Rightarrow> accepted validator (jsonParse jsonString))"

definition tryGenericBlock :: "parser \<Rightarrow> jsstring \<Rightarrow> (json \<Rightarrow> bool) \<Rightarrow> json option" where
  "tryGenericBlock jsonParse text validator =
     (case braceContent (closedBlock fence text) of
        None \<Rightarrow> None
      | Some content \<Rightarrow> accepted validator (jsonParse content))"

definition tryCodeBlockWithValidator :: "parser \<Rightarrow> jsstring \<Rightarrow> (json \<Rightarrow> bool) \<Rightarrow> json option"
  where
  "tryCodeBlockWithValidator jsonParse text validator =
     (case closedBlock jsonFence text of
        None \<Rightarrow> tryGenericBlock jsonParse text validator
      | Some g \<Rightarrow>
          (case jsonParse (trim g) of
             None \<Rightarrow> None
           | Some v \<Rightarrow> if validator v then Some v
                       else tryGenericBlock jsonParse text validator))"

definition tryCleanupWithValidator :: "parser \<Rightarrow> jsstring \<Rightarrow> (json \<Rightarrow> bool) \<Rightarrow> json option"
  where
  "tryCleanupWithValidator jsonParse text validator =
     (let cleaned = cleanText text
      in case tryDirectParseWithValidator jsonParse cleaned validator of
           Some v \<Rightarrow> Some v
         | None \<Rightarrow> tryBalancedBracesWithValidator jsonParse cleaned validator)"

definition tryRepairWithValidator :: "parser \<Rightarrow> jsstring \<Rightarrow> (json \<Rightarrow> bool) \<Rightarrow> json option" where
  "tryRepairWithValidator jsonParse text validator =
     accepted validator (repairCommonJSONErrors jsonParse text)"

definition tryJSON5WithValidator :: "parser \<Rightarrow> jsstring \<Rightarrow> (json \<Rightarrow> bool) \<Rightarrow> json option" where
  "tryJSON5WithValidator json5Parse text validator =
     accepted validator (tryJSON5Parse json5Parse text)"


definition strategies ::
  "parser \<Rightarrow> parser \<Rightarrow> jsstring \<Rightarrow> (json \<Rightarrow> bool) \<Rightarrow> (string \<times> json option) list" where
  "strategies jsonParse json5Parse text validator =
     [(''directParse'', tryDirectParseWithValidator jsonParse text validator),
      (''balancedBraces'', tryBalancedBracesWithValidator jsonParse text validator),
      (''codeBlock'', tryCodeBlockWithValidator jsonParse text validator),
      (''cleanup'', tryCleanupWithValidator jsonParse text validator),
      (''repair'', tryRepairWithValidator jsonParse text validator),
      (''json5'', tryJSON5WithValidator json5Parse text validator)]"


text \<open>
  The cascade in the words of the specification: six candidates in a fixed order, of
  which the first that exists and that the shape validator accepts is returned with the
  name of its strategy.
\<close>

fun spec_recover :: "(json \<Rightarrow> bool) \<Rightarrow> (string \<times> json option) list \<Rightarrow> Recovery" where
  "spec_recover shapeValidator [] = allFailed"
| "spec_recover shapeValidator ((strategyName, candidate) # later) =
     (case candidate of
        None \<Rightarrow> spec_recover shapeValidator later
      | Some v \<Rightarrow> if shapeValidator v then succeeded v strategyName
                  else spec_recover shapeValidator later)"






section \<open>Evaluation of the string operations on concrete texts\<close>


section \<open>Properties of the retry controller\<close>

lemma map_upt_Suc_shift: "map f [0..<Suc m] = f 0 # map (\<lambda>j. f (Suc j)) [0..<m]"
proof -
  have "[0..<Suc m] = 0 # map Suc [0..<m]"
    by (simp add: upt_conv_Cons map_Suc_upt del: upt_Suc)
  then show ?thesis by (simp add: comp_def del: upt_Suc)
qed

lemma withRetry_fulfilled:
  assumes "\<And>j. j < m \<Longrightarrow> \<exists>e. fn (calls + j) = Rejected e"
    and "fn (calls + m) = Fulfilled v"
    and "a + m \<le> maxRetries config"
  shows "withRetry config fn random calls a =
    (Fulfilled v, map (\<lambda>j. calculateDelay config (a + j) (random (calls + j))) [0..<m])"
  using assms
proof (induction m arbitrary: calls a)
  case 0
  then show ?case by (subst withRetry.simps) simp
next
  case (Suc m)
  from Suc.prems(1) [of 0] obtain e where e: "fn calls = Rejected e" by auto
  have rest: "withRetry config fn random (Suc calls) (Suc a) =
    (Fulfilled v, map (\<lambda>j. calculateDelay config (Suc a + j) (random (Suc calls + j))) [0..<m])"
  proof (rule Suc.IH)
    fix j assume "j < m"
    then show "\<exists>e. fn (Suc calls + j) = Rejected e" using Suc.prems(1) [of "Suc j"] by simp
  next
    show "fn (Suc calls + m) = Fulfilled v" using Suc.prems(2) by simp
  next
    show "Suc a + m \<le> maxRetries config" using Suc.prems(3) by simp
  qed
  have "\<not> maxRetries config \<le> a" using Suc.prems(3) by simp
  then show ?case
    by (subst withRetry.simps) (simp add: e rest map_upt_Suc_shift Let_def del: upt_Suc)
qed

lemma withRetry_exhausted:
  assumes "\<And>j. j < m \<Longrightarrow> \<exists>e. fn (calls + j) = Rejected e"
    and "fn (calls + m) = Rejected err"
    and "a + m = maxRetries config"
  shows "withRetry config fn random calls a =
    (Rejected err, map (\<lambda>j. calculateDelay config (a + j) (random (calls + j))) [0..<m])"
  using assms
proof (induction m arbitrary: calls a)
  case 0
  then show ?case by (subst withRetry.simps) simp
next
  case (Suc m)
  from Suc.prems(1) [of 0] obtain e where e: "fn calls = Rejected e" by auto
  have rest: "withRetry config fn random (Suc calls) (Suc a) =
    (Rejected err, map (\<lambda>j. calculateDelay config (Suc a + j) (random (Suc calls + j))) [0..<m])"
  proof (rule Suc.IH)
    fix j assume "j < m"
    then show "\<exists>e. fn (Suc calls + j) = Rejected e" using Suc.prems(1) [of "Suc j"] by simp
  next
    show "fn (Suc calls + m) = Rejected err" using Suc.prems(2) by simp
  next
    show "Suc a + m = maxRetries config" using Suc.prems(3) by simp
  qed
  have "\<not> maxRetries config \<le> a" using Suc.prems(3) by simp
  then show ?case
    by (subst withRetry.simps) (simp add: e rest map_upt_Suc_shift Let_def del: upt_Suc)
qed

text \<open>
  C1, as the code has it. \<open>withRetry\<close> never looks at the class of an error. When the
  first \<open>n\<close> calls of the operation fail (with errors of any class) and call \<open>n\<close>
  succeeds, for \<open>n\<close> up to \<open>maxRetries\<close>, the result is that success, reached after
  \<open>n\<close> backoff delays \<open>min(baseDelay * multiplier^k, maxDelay) + random * 1000\<close>; when
  all of the first \<open>maxRetries + 1\<close> calls fail, the error of the last call is propagated
  after \<open>maxRetries\<close> delays.
\<close>

theorem withRetry_retries_every_class:
  "((\<forall>k<n. \<exists>e. fn k = Rejected e) \<and> fn n = Fulfilled v \<and> n \<le> maxRetries config \<longrightarrow>
      withRetry config fn random 0 0 =
        (Fulfilled v, map (\<lambda>k. calculateDelay config k (random k)) [0..<n]))
   \<and> ((\<forall>k<maxRetries config. \<exists>e. fn k = Rejected e) \<and> fn (maxRetries config) = Rejected err \<longrightarrow>
      withRetry config fn random 0 0 =
        (Rejected err, map (\<lambda>k. calculateDelay config k (random k)) [0..<maxRetries config]))"
  using withRetry_fulfilled [of n fn 0 v 0 config random]
    withRetry_exhausted [of "maxRetries config" fn 0 err 0 config random]
  by simp

theorem withRetry_retries_every_class_witness:
  "withRetry (DEFAULT_RETRY_CONFIG 3) failsOnceWithValidation noJitter 0 0 = (Fulfilled 7, [1000])
   \<and> withRetry (DEFAULT_RETRY_CONFIG 3) alwaysUnknown noJitter 0 0 =
       (Rejected (Error (js ''boom'')), [1000, 2000, 4000])"
proof -
  have three: "[0..<3] = [0, 1, 2]" by (simp add: upt_rec)
  show ?thesis
    using withRetry_retries_every_class [of 1 failsOnceWithValidation 7 "DEFAULT_RETRY_CONFIG 3"
        noJitter "Error (js ''boom'')"]
      withRetry_retries_every_class [of 0 alwaysUnknown 7 "DEFAULT_RETRY_CONFIG 3"
        noJitter "Error (js ''boom'')"]
    by (simp add: failsOnceWithValidation_def alwaysUnknown_def noJitter_def
        DEFAULT_RETRY_CONFIG_def calculateDelay_def three)
qed

text \<open>
  C1 as stated fails: an error that \<open>classifyError\<close> puts in the class VALIDATION, which
  \<open>isRetryable\<close> does not count as retryable, is followed by a backoff delay of 1000 ms
  and a second call of the operation, whose result is returned.
\<close>

theorem withRetry_retries_validation_error:
  "classifyError (Error (js ''Validation failed: productName: Required'')) = VALIDATION
   \<and> \<not> isRetryable (Error (js ''Validation failed: productName: Required''))
   \<and> failsOnceWithValidation 0 = Rejected (Error (js ''Validation failed: productName: Required''))
   \<and> withRetry (DEFAULT_RETRY_CONFIG 3) failsOnceWithValidation noJitter 0 0
       = (Fulfilled 7, [1000])"
  by (simp add: classifyError_def isRetryable_def js_def toLowerCase_def lowerUnit_def
      failsOnceWithValidation_def withRetry.simps DEFAULT_RETRY_CONFIG_def noJitter_def
      calculateDelay_def)

section \<open>Properties of the batch orchestrator\<close>

lemma windowLoop_returns:
  "0 < c \<Longrightarrow> \<exists>s' f'. windowLoop c shut out pdfs i k s f = Some (s', f')"
proof (induction "length pdfs - i" arbitrary: i k s f rule: less_induct)
  case less
  show ?case
  proof (cases "i < length pdfs \<and> \<not> shut k")
    case True
    then have "length pdfs - (i + c) < length pdfs - i" using less.prems by arith
    from less.hyps [OF this less.prems] show ?thesis
      using True by (subst windowLoop.simps) (simp add: Let_def)
  next
    case False
    then show ?thesis by (subst windowLoop.simps) auto
  qed
qed

lemma retryLoop_counts:
  "retryLoop proc j pdfs s f = Inr (s', f') \<Longrightarrow> s' + f' = s + f + length pdfs"
proof (induction pdfs arbitrary: j s f)
  case Nil
  then show ?case by simp
next
  case (Cons pdf rest)
  then show ?case by (fastforce split: settled.splits if_splits)
qed

lemma rateOf_positive:
  "0 < s + f \<Longrightarrow> rateOf s f = Num (of_nat s / of_nat (s + f) * 100)"
  by (simp add: rateOf_def)

lemma processAll_rate:
  assumes "0 < envConcurrency"
  shows "\<exists>r. processAll options envConcurrency scan isProc shut proc elapsed = Some r \<and>
     totalProcessed r = successCount r + failureCount r \<and>
     (0 < totalProcessed r \<longrightarrow>
        successRate r = Num (of_nat (successCount r) / of_nat (successCount r + failureCount r) * 100)) \<and>
     (validFiles scan = 0 \<longrightarrow> totalProcessed r = 0 \<and> successRate r = Num 0) \<and>
     (validFiles scan \<noteq> 0 \<and> limitedPdfs options (filteredPdfs options scan isProc) = [] \<longrightarrow>
        totalProcessed r = 0 \<and> successRate r = Num 100)"
proof -
  define c where "c = (case opt_concurrency options of None \<Rightarrow> envConcurrency
                        | Some c \<Rightarrow> if c = 0 then envConcurrency else c)"
  have "0 < c" using assms by (simp add: c_def split: option.splits)
  from windowLoop_returns [OF this]
  obtain s' f' where loop: "windowLoop c shut proc
      (limitedPdfs options (filteredPdfs options scan isProc)) 0 0 0 0 = Some (s', f')"
    by blast
  show ?thesis
    using loop by (simp add: processAll_def Let_def c_def [symmetric] rateOf_positive)
qed

lemma retryFailed_rate:
  assumes "retryFailed failed proc elapsed = Inr r"
  shows "totalProcessed r = successCount r + failureCount r \<and>
     (0 < totalProcessed r \<longrightarrow>
        successRate r = Num (of_nat (successCount r) / of_nat (successCount r + failureCount r) * 100)) \<and>
     (totalProcessed r = 0 \<longrightarrow> failed = [] \<and> successRate r = Num 0)"
proof (cases "failed = []")
  case True
  then show ?thesis using assms by (auto simp: retryFailed_def)
next
  case False
  from assms False obtain s' f' where loop: "retryLoop proc 0 failed 0 0 = Inr (s', f')"
    and r: "r = \<lparr>totalProcessed = s' + f', successCount = s', failureCount = f',
              skippedCount = 0, elapsedMs = elapsed, successRate = rateOf s' f'\<rparr>"
    by (auto simp: retryFailed_def split: sum.splits)
  from retryLoop_counts [OF loop] False have pos: "0 < s' + f'" by simp
  have "rateOf s' f' = Num (of_nat s' / of_nat (s' + f') * 100)"
    by (rule rateOf_positive [OF pos])
  then show ?thesis using r pos by auto
qed

text \<open>
  C3, as the code has it. A run of \<open>processAll\<close> (with a positive configured
  concurrency) returns, and so does every run of \<open>retryFailed\<close> in which no item's
  promise rejects. In each run that attempted at least one item the success rate is
  \<open>successCount / (successCount + failureCount) * 100\<close>. With no item attempted,
  \<open>retryFailed\<close> (no failed product) and \<open>processAll\<close> on a scan without valid files
  return 0, and \<open>processAll\<close> with valid files of which none is left to process returns
  100.
\<close>

theorem successRate_of_batch_runs:
  "(0 < envConcurrency \<longrightarrow>
     (\<exists>r. processAll options envConcurrency scan isProc shut proc elapsed = Some r \<and>
        totalProcessed r = successCount r + failureCount r \<and>
        (0 < totalProcessed r \<longrightarrow>
           successRate r =
             Num (of_nat (successCount r) / of_nat (successCount r + failureCount r) * 100)) \<and>
        (validFiles scan = 0 \<longrightarrow> totalProcessed r = 0 \<and> successRate r = Num 0) \<and>
        (validFiles scan \<noteq> 0 \<and> limitedPdfs options (filteredPdfs options scan isProc) = [] \<longrightarrow>
           totalProcessed r = 0 \<and> successRate r = Num 100)))
   \<and> (\<forall>r. retryFailed failed proc elapsed = Inr r \<longrightarrow>
        totalProcessed r = successCount r + failureCount r \<and>
        (0 < totalProcessed r \<longrightarrow>
           successRate r =
             Num (of_nat (successCount r) / of_nat (successCount r + failureCount r) * 100)) \<and>
        (totalProcessed r = 0 \<longrightarrow> failed = [] \<and> successRate r = Num 0))"
  using processAll_rate [of envConcurrency options scan isProc shut proc elapsed]
    retryFailed_rate [of failed proc elapsed]
  by blast

theorem successRate_of_batch_runs_witness:
  "processAll defaultOptions 3 scanOfAB noneProcessed neverShutDown firstSucceeds 5 =
     Some \<lparr>totalProcessed = 2, successCount = 1, failureCount = 1, skippedCount = 0,
           elapsedMs = 5, successRate = Num 50\<rparr>
   \<and> retryFailed [pdfA, pdfB] firstSucceeds 5 =
     Inr \<lparr>totalProcessed = 2, successCount = 1, failureCount = 1, skippedCount = 0,
          elapsedMs = 5, successRate = Num 50\<rparr>
   \<and> retryFailed [] firstSucceeds 5 =
     Inr \<lparr>totalProcessed = 0, successCount = 0, failureCount = 0, skippedCount = 0,
          elapsedMs = 0, successRate = Num 0\<rparr>"
  using successRate_of_batch_runs [of 3 defaultOptions scanOfAB noneProcessed neverShutDown
      firstSucceeds 5 "[pdfA, pdfB]"]
    successRate_of_batch_runs [of 3 defaultOptions scanOfAB noneProcessed neverShutDown
      firstSucceeds 5 "[]"]
  by (simp add: processAll_def defaultOptions_def scanOfAB_def noneProcessed_def
      neverShutDown_def firstSucceeds_def windowLoop.simps rateOf_def filteredPdfs_def
      limitedPdfs_def retryFailed_def)

text \<open>
  C3 as stated fails: with one scanned PDF that is already processed, \<open>processAll\<close>
  attempts no item and returns the success rate 100, not 0.
\<close>

theorem processAll_nothing_to_process_rate_100:
  "processAll defaultOptions 3 scanOfA allProcessed neverShutDown firstSucceeds 5 =
     Some \<lparr>totalProcessed = 0, successCount = 0, failureCount = 0, skippedCount = 1,
           elapsedMs = 5, successRate = Num 100\<rparr>"
  by (simp add: processAll_def defaultOptions_def scanOfA_def allProcessed_def
      filteredPdfs_def limitedPdfs_def pdfA_def)

section \<open>Properties of the rate limiter\<close>

lemma afterWait_fields [simp]:
  "requestTimes (afterWait w r) = requestTimes r"
  "admittedAt (afterWait w r) = admittedAt r"
  "waits (afterWait w r) = w # waits r"
  by (simp_all add: afterWait_def)

lemma admit_fields [simp]:
  "requestTimes (admit kept now) = kept @ [now]"
  "admittedAt (admit kept now) = now"
  "waits (admit kept now) = []"
  by (simp_all add: admit_def)

lemma acquire_admits_at_once:
  assumes "int (length (filter (\<lambda>t. t > now - 60000) recorded)) < m"
  shows "acquire m recorded now env = admit (filter (\<lambda>t. t > now - 60000) recorded) now"
  using assms by (subst acquire.simps) (simp add: Let_def)

lemma oldest_in_window:
  assumes "filter (\<lambda>t. t > now - 60000) recorded = oldest # others"
  shows "now - 60000 < (oldest :: int)"
proof -
  have "oldest \<in> set (filter (\<lambda>t. t > now - 60000) recorded)" unfolding assms by simp
  then show ?thesis by simp
qed

lemma acquire_waits_then_retries:
  assumes full: "m \<le> int (length (filter (\<lambda>t. t > now - 60000) recorded))"
    and oldest: "filter (\<lambda>t. t > now - 60000) recorded = oldest # others"
  shows "acquire m recorded now env =
    afterWait (60000 - (now - oldest) + 100)
      (case env of
         [] \<Rightarrow> acquire m (oldest # others) (now + (60000 - (now - oldest) + 100)) []
       | (late, pushed) # env' \<Rightarrow>
           acquire m ((oldest # others) @ pushed)
             (now + (60000 - (now - oldest) + 100) + int late) env')"
proof -
  have "0 < 60000 - (now - oldest) + 100" using oldest_in_window [OF oldest] by simp
  then show ?thesis
    using full oldest by (subst acquire.simps) (simp add: Let_def split: list.splits)
qed

lemma acquire_invariant:
  "\<exists>kept. requestTimes (acquire m recorded now env)
            = kept @ [admittedAt (acquire m recorded now env)]
     \<and> (\<forall>t\<in>set kept. admittedAt (acquire m recorded now env) - 60000 < t)
     \<and> (1 \<le> m \<longrightarrow> int (length kept) < m)
     \<and> now \<le> admittedAt (acquire m recorded now env)"
proof (induction m recorded now env rule: acquire.induct)
  case (1 m recorded now env)
  define retained where "retained = filter (\<lambda>t. t > now - 60000) recorded"
  show ?case
  proof (cases "int (length retained) < m")
    case True
    then have "acquire m recorded now env = admit retained now"
      unfolding retained_def by (rule acquire_admits_at_once)
    then show ?thesis using True by (auto simp: retained_def)
  next
    case False
    show ?thesis
    proof (cases retained)
      case Nil
      then have "acquire m recorded now env = admit retained now"
        using False by (subst acquire.simps) (simp add: Let_def retained_def)
      then show ?thesis using Nil False by auto
    next
      case (Cons oldest others)
      define waitTime where "waitTime = 60000 - (now - oldest) + 100"
      have pos: "0 < waitTime"
        using oldest_in_window [of now recorded oldest others] Cons
        by (simp add: retained_def waitTime_def)
      have full: "m \<le> int (length retained)" using False by simp
      have step: "acquire m recorded now env =
        afterWait waitTime
          (case env of
             [] \<Rightarrow> acquire m (oldest # others) (now + waitTime) []
           | (late, pushed) # env' \<Rightarrow>
               acquire m ((oldest # others) @ pushed) (now + waitTime + int late) env')"
        unfolding waitTime_def
        using acquire_waits_then_retries [of m now recorded oldest others env] full Cons
        by (simp add: retained_def)
      show ?thesis
      proof (cases env)
        case Nil
        have "\<exists>kept. requestTimes (acquire m retained (now + waitTime) [])
                = kept @ [admittedAt (acquire m retained (now + waitTime) [])]
           \<and> (\<forall>t\<in>set kept. admittedAt (acquire m retained (now + waitTime) []) - 60000 < t)
           \<and> (1 \<le> m \<longrightarrow> int (length kept) < m)
           \<and> now + waitTime \<le> admittedAt (acquire m retained (now + waitTime) [])"
          using "1.IH"(1) [OF refl retained_def _ Cons waitTime_def pos Nil]
            full by simp
        then show ?thesis using step Nil Cons pos by auto
      next
        case (Cons e env')
        obtain late pushed where e: "e = (late, pushed)" by (cases e)
        have "\<exists>kept. requestTimes (acquire m (retained @ pushed) (now + waitTime + int late) env')
                = kept @ [admittedAt (acquire m (retained @ pushed) (now + waitTime + int late) env')]
           \<and> (\<forall>t\<in>set kept.
                 admittedAt (acquire m (retained @ pushed) (now + waitTime + int late) env')
                   - 60000 < t)
           \<and> (1 \<le> m \<longrightarrow> int (length kept) < m)
           \<and> now + waitTime + int late
               \<le> admittedAt (acquire m (retained @ pushed) (now + waitTime + int late) env')"
          using "1.IH"(2) [OF refl retained_def
              _ \<open>retained = oldest # others\<close>
              waitTime_def pos Cons e [symmetric]]
            full by simp
        then show ?thesis using step Cons e \<open>retained = oldest # others\<close> pos by auto
      qed
    qed
  qed
qed

text \<open>
  C8. \<open>acquire\<close> has no failing path: it is a total function whose only results are
  admissions. It first purges the timestamps that are not younger than 60 seconds. When
  fewer than the ceiling remain, the caller is admitted at once and the current time is
  recorded after the retained ones. When the ceiling is reached, the caller sleeps
  60000 ms minus the age of the oldest retained timestamp plus 100 ms and then attempts
  admission again, on the retained list and whatever other callers pushed meanwhile.
  Whenever admission is granted, the timestamps recorded before it that are still in the
  list all lie within the last 60 seconds and, for a ceiling of at least 1 (the
  configuration admits only positive ceilings), are fewer than the ceiling; the admission
  time is recorded last and is not before the time of the call.
\<close>

theorem acquire_only_delays:
  "(int (length (filter (\<lambda>t. t > now - 60000) recorded)) < m \<longrightarrow>
      acquire m recorded now env = admit (filter (\<lambda>t. t > now - 60000) recorded) now)
   \<and> (m \<le> int (length (filter (\<lambda>t. t > now - 60000) recorded))
        \<and> filter (\<lambda>t. t > now - 60000) recorded = oldest # others \<longrightarrow>
      acquire m recorded now env =
        afterWait (60000 - (now - oldest) + 100)
          (case env of
             [] \<Rightarrow> acquire m (oldest # others) (now + (60000 - (now - oldest) + 100)) []
           | (late, pushed) # env' \<Rightarrow>
               acquire m ((oldest # others) @ pushed)
                 (now + (60000 - (now - oldest) + 100) + int late) env'))
   \<and> (\<exists>kept. requestTimes (acquire m recorded now env)
                = kept @ [admittedAt (acquire m recorded now env)]
         \<and> (\<forall>t\<in>set kept. admittedAt (acquire m recorded now env) - 60000 < t)
         \<and> (1 \<le> m \<longrightarrow> int (length kept) < m)
         \<and> now \<le> admittedAt (acquire m recorded now env))"
  using acquire_admits_at_once [of now recorded m env]
    acquire_waits_then_retries [of m now recorded oldest others env]
    acquire_invariant [of m recorded now env]
  by blast

theorem acquire_only_delays_witness:
  "acquire 2 [1000, 2000] 3000 [] =
     \<lparr>requestTimes = [2000, 61100], admittedAt = 61100, waits = [58100]\<rparr>
   \<and> acquire 2 [1000, 2000] 3000 [(5, [61500])] =
     \<lparr>requestTimes = [61500, 62100], admittedAt = 62100, waits = [58100, 995]\<rparr>
   \<and> acquire 2 [1000] 3000 [] =
     \<lparr>requestTimes = [1000, 3000], admittedAt = 3000, waits = []\<rparr>"
  using acquire_only_delays [of 3000 "[1000, 2000]" 2 "[]" 1000 "[2000]"]
    acquire_only_delays [of 3000 "[1000, 2000]" 2 "[(5, [61500])]" 1000 "[2000]"]
    acquire_only_delays [of 3000 "[1000]" 2 "[]" 1000 "[]"]
  by (simp add: acquire.simps admit_def afterWait_def)

section \<open>Properties of the review prioritizer\<close>

lemma length_filter_eq_count_list: "length (filter (\<lambda>x. x = a) xs) = count_list xs a"
  by (induction xs) auto

lemma length_filter_sev_count_list:
  "length (filter (\<lambda>w. w_severity w = a) ws) = count_list (map w_severity ws) a"
  by (induction ws) auto

lemma addToReviewQueue_row:
  "\<exists>row. addToReviewQueue db now pid code ds vw pid = Some row \<and>
         review_priority row =
           3 * count_list (map w_severity (warningsOrEmpty vw)) high + 2 * count_list ds high
           + (count_list (map w_severity (warningsOrEmpty vw)) medium + count_list ds medium)"
  by (cases "db pid")
     (simp_all add: addToReviewQueue_def Let_def length_filter_eq_count_list
        length_filter_sev_count_list)

text \<open>
  C9. Whatever comparison discrepancies and validation warnings come with an item, and
  whether or not the item is already queued, the row that \<open>addToReviewQueue\<close> leaves
  under the item's id carries the priority 3 * (high validation warnings) + 2 * (high
  comparison discrepancies) + (medium validation warnings + medium comparison
  discrepancies). One high validation warning alone gives 3; two high comparison
  discrepancies and one medium finding give 5.
\<close>

theorem review_priority_formula:
  "(\<exists>row. addToReviewQueue db now pid code ds vw pid = Some row \<and>
      review_priority row = spec_priority (map w_severity (warningsOrEmpty vw)) ds)
   \<and> (\<exists>row. addToReviewQueue db now pid code []
          (Some [\<lparr>w_fieldPath = p, w_message = m, w_severity = high\<rparr>]) pid = Some row \<and>
        review_priority row = 3)
   \<and> (\<exists>row. addToReviewQueue db now pid code [high, high, medium] None pid = Some row \<and>
        review_priority row = 5)
   \<and> (\<exists>row. addToReviewQueue db now pid code [high, high]
          (Some [\<lparr>w_fieldPath = p, w_message = m, w_severity = medium\<rparr>]) pid = Some row \<and>
        review_priority row = 5)"
proof -
  have general: "\<exists>row. addToReviewQueue db now pid code ds vw pid = Some row \<and>
      review_priority row = spec_priority (map w_severity (warningsOrEmpty vw)) ds"
    for ds vw
    using addToReviewQueue_row [of db now pid code ds vw] by (simp add: spec_priority_def)
  show ?thesis
    using general [of ds vw] general [of "[]" "Some [\<lparr>w_fieldPath = p, w_message = m, w_severity = high\<rparr>]"]
      general [of "[high, high, medium]" None]
      general [of "[high, high]" "Some [\<lparr>w_fieldPath = p, w_message = m, w_severity = medium\<rparr>]"]
    by (simp add: spec_priority_def warningsOrEmpty_def)
qed
section \<open>Properties of the salvage parse\<close>











lemma salvage_result:
  assumes "productExtractionSchema v = None" and "isObject v"
  shows "safeParseProductExtraction v =
    Some \<lparr>productName = stringOr (getProp v ''productName'') (js ''Unknown''),
          productSlogan = stringOrNull (getProp v ''productSlogan''),
          productDescription =
            stringOr (getProp v ''productDescription'') (js ''No description available''),
          subbrand = stringOrNull (getProp v ''subbrand''),
          supplementFacts = salvageSupplementFacts v,
          ingredients = [],
          directions = stringOr (getProp v ''directions'') (js ''No directions provided''),
          caution = stringOrNull (getProp v ''caution''),
          dietaryAttributes = [],
          references = stringOrNull (getProp v ''references'')\<rparr>"
  using assms by (simp add: safeParseProductExtraction_def)

lemma stringOr_cases:
  "(\<forall>s. v = Some (JStr s) \<longrightarrow> stringOr v d = s) \<and> (\<not> isStringValue v \<longrightarrow> stringOr v d = d)"
  by (auto simp: stringOr_def isStringValue_def split: option.splits json.splits)




lemmas json_eval = getProp_def isObject_def zString1_def zOptStr_def zArray_def
  zBooleanDefaultFalse_def zPlainString_def anyString_def amountPattern_def percentPattern_def
  nutrientSchema_def supplementFactsSchema_def ingredientSchema_def zOptionalFacts_def
  productExtractionSchema_def stringOr_def stringOrNull_def hasStringName_def
  salvageNutrient_def salvageSupplementFacts_def isStringValue_def

lemmas sample_eval = ironEntry_def zincEntry_def namelessEntry_def rawFacts_def recovered_def


lemma recovered_fails_schema: "productExtractionSchema recovered = None"
  by (simp add: json_eval sample_eval js_def)



text \<open>
  C10. Whenever the salvage parse is used, that is for a value that fails the strict
  schema and is an object, the salvaged record has no ingredients and no dietary
  attributes, whatever arrays the value holds, and each of \<open>productName\<close>,
  \<open>productDescription\<close> and \<open>directions\<close> is the raw string if there is one and else the
  placeholder \<open>Unknown\<close>, \<open>No description available\<close>, \<open>No directions provided\<close>.
\<close>

theorem salvage_discards_lists_and_fills_placeholders:
  assumes "productExtractionSchema v = None" and "isObject v"
  shows "\<exists>r. safeParseProductExtraction v = Some r
      \<and> ingredients r = [] \<and> dietaryAttributes r = []
      \<and> (\<forall>s. getProp v ''productName'' = Some (JStr s) \<longrightarrow> productName r = s)
      \<and> (\<not> isStringValue (getProp v ''productName'') \<longrightarrow> productName r = js ''Unknown'')
      \<and> (\<forall>s. getProp v ''productDescription'' = Some (JStr s) \<longrightarrow> productDescription r = s)
      \<and> (\<not> isStringValue (getProp v ''productDescription'')
            \<longrightarrow> productDescription r = js ''No description available'')
      \<and> (\<forall>s. getProp v ''directions'' = Some (JStr s) \<longrightarrow> directions r = s)
      \<and> (\<not> isStringValue (getProp v ''directions'')
            \<longrightarrow> directions r = js ''No directions provided'')"
  using salvage_result [OF assms]
    stringOr_cases [of "getProp v ''productName''" "js ''Unknown''"]
    stringOr_cases [of "getProp v ''productDescription''" "js ''No description available''"]
    stringOr_cases [of "getProp v ''directions''" "js ''No directions provided''"]
  by simp

theorem salvage_discards_lists_and_fills_placeholders_witness:
  "productExtractionSchema recovered = None
   \<and> zArray ingredientSchema (getProp recovered ''ingredients'')
       = Some [\<lparr>ing_name = js ''Rice flour'', isOrganic = False\<rparr>]
   \<and> zArray zPlainString (getProp recovered ''dietaryAttributes'') = Some [js ''Vegan'']
   \<and> (\<exists>r. safeParseProductExtraction recovered = Some r
        \<and> ingredients r = [] \<and> dietaryAttributes r = []
        \<and> productName r = js ''Iron Plus''
        \<and> productDescription r = js ''No description available''
        \<and> directions r = js ''No directions provided'')"
proof -
  have h2: "isObject recovered" by (simp add: recovered_def isObject_def)
  have ings: "zArray ingredientSchema (getProp recovered ''ingredients'')
       = Some [\<lparr>ing_name = js ''Rice flour'', isOrganic = False\<rparr>]"
    by (simp add: json_eval sample_eval js_def)
  have attrs: "zArray zPlainString (getProp recovered ''dietaryAttributes'') = Some [js ''Vegan'']"
    by (simp add: json_eval sample_eval js_def)
  have props: "getProp recovered ''productName'' = Some (JStr (js ''Iron Plus''))"
    "\<not> isStringValue (getProp recovered ''productDescription'')"
    "\<not> isStringValue (getProp recovered ''directions'')"
    by (simp_all add: json_eval sample_eval js_def)
  show ?thesis
    using salvage_discards_lists_and_fills_placeholders [OF recovered_fails_schema h2]
      recovered_fails_schema ings attrs props
    by auto
qed

section \<open>Properties of the comparison engine\<close>
































section \<open>Properties of the recovery cascade\<close>


lemma accepted_None: "(accepted val c = None) = (\<forall>v. c = Some v \<longrightarrow> \<not> val v)"
  by (cases c) (auto simp: accepted_def)



lemma spec_recover_accepted_again:
  "spec_recover val ((n, accepted val c) # later) = spec_recover val ((n, c) # later)"
  by (cases c) (simp_all add: accepted_def)









lemma spec_recover_none:
  "\<forall>(n, c)\<in>set cs. accepted val c = None \<Longrightarrow> spec_recover val cs = allFailed"
proof (induction cs)
  case Nil
  then show ?case by simp
next
  case (Cons nc cs)
  obtain n c where nc: "nc = (n, c)" by (cases nc)
  show ?case using Cons unfolding nc by (cases c) (auto simp: accepted_def split: if_splits)
qed











end
